theory Spec2Isabelle
  imports Complex_Main
begin

section \<open>Python values shared by both modules\<close>

text \<open>
  Exceptions are values. \<open>CancelledError\<close> stands for the exceptions that derive from
  \<open>BaseException\<close> only: a bare \<open>except:\<close> catches them, \<open>except Exception\<close> does not.
  Every other constructor is a subclass of \<open>Exception\<close>. \<open>DiscordException\<close> is the
  base class of the chat library's errors.
\<close>

datatype exn =
    AssertionError string
  | UnboundLocalError string
  | KeyError string
  | TypeError
  | ValueError
  | OverflowError
  | AttributeError
  | OSError string
  | DiscordException string
  | OtherException string
  | CancelledError

fun is_Exception :: "exn \<Rightarrow> bool" where
  "is_Exception CancelledError = False"
| "is_Exception _ = True"

fun is_DiscordException :: "exn \<Rightarrow> bool" where
  "is_DiscordException (DiscordException _) = True"
| "is_DiscordException _ = False"

text \<open>The result of running a function body: it returns a value or raises.\<close>

datatype 'a outcome = Returned 'a | Raised exn

section \<open>Token store: \<open>_get_valid_tokens\<close> (client.py)\<close>

text \<open>
  Characters are the code points below 256. \<open>is_space\<close> is the whitespace that
  \<open>str.strip()\<close> removes in that range.
\<close>

definition LF :: char where "LF = CHR 0x0A"
definition CR :: char where "CR = CHR 0x0D"

definition is_space :: "char \<Rightarrow> bool" where
  "is_space c = ((of_char c :: nat) \<in> {9, 10, 11, 12, 13, 28, 29, 30, 31, 32, 133, 160})"

definition strip :: "string \<Rightarrow> string" where
  "strip s = rev (dropWhile is_space (rev (dropWhile is_space s)))"

text \<open>\<open>open(filename, encoding='utf-8')\<close> reads in universal-newlines mode:
  \<open>\r\n\<close> and a lone \<open>\r\<close> arrive as \<open>\n\<close>.\<close>

fun universal_newlines :: "string \<Rightarrow> string" where
  "universal_newlines [] = []"
| "universal_newlines [c] = (if c = CR then [LF] else [c])"
| "universal_newlines (c # d # cs) =
     (if c = CR then
        (if d = LF then LF # universal_newlines cs else LF # universal_newlines (d # cs))
      else c # universal_newlines (d # cs))"

text \<open>\<open>fp.readlines()\<close>: the text cut after every \<open>\n\<close>, each line keeping its terminator.\<close>

fun readlines :: "string \<Rightarrow> string list" where
  "readlines [] = []"
| "readlines (c # cs) =
     (if c = LF then [c] # readlines cs
      else (case readlines cs of [] \<Rightarrow> [[c]] | l # ls \<Rightarrow> (c # l) # ls))"

text \<open>\<open>line.index(';')\<close>: the first position of the character, \<open>None\<close> for ValueError.\<close>

fun str_index :: "string \<Rightarrow> char \<Rightarrow> nat option" where
  "str_index [] c = None"
| "str_index (x # xs) c = (if x = c then Some 0 else map_option Suc (str_index xs c))"

text \<open>The body of the loop for one line: \<open>None\<close> is \<open>continue\<close>, \<open>Some token\<close> is
  \<open>tokens.append(token)\<close>.\<close>

definition strip_token :: "string \<Rightarrow> string option" where
  "strip_token line = (let token = strip line in if length token = 0 then None else Some token)"

definition token_of_line :: "string \<Rightarrow> string option" where
  "token_of_line line =
     (case str_index line (CHR '';'') of
        Some comment_index \<Rightarrow>
          if comment_index = 0 then None else strip_token (take comment_index line)
      | None \<Rightarrow> strip_token line)"

fun tokens_loop :: "string list \<Rightarrow> string list \<Rightarrow> string list" where
  "tokens_loop [] tokens = tokens"
| "tokens_loop (line # lines) tokens =
     (case token_of_line line of
        None \<Rightarrow> tokens_loop lines tokens
      | Some token \<Rightarrow> tokens_loop lines (tokens @ [token]))"

text \<open>The file system is a map from names to decoded text; a missing file raises.\<close>

definition get_valid_tokens_text :: "string \<Rightarrow> string list" where
  "get_valid_tokens_text text = tokens_loop (readlines (universal_newlines text)) []"

definition get_valid_tokens :: "(string \<rightharpoonup> string) \<Rightarrow> string \<Rightarrow> exn + string list" where
  "get_valid_tokens fs filename =
     (case fs filename of
        None \<Rightarrow> Inl (OSError ''No such file or directory'')
      | Some text \<Rightarrow> Inr (get_valid_tokens_text text))"

text \<open>The rule for one line as the specification words it: a line that starts with
  \<open>;\<close> is skipped, a \<open>;\<close> elsewhere cuts the line there, what remains is trimmed and
  skipped when empty.\<close>

definition spec_token_of_line :: "string \<Rightarrow> string option" where
  "spec_token_of_line line =
     (case line of
        [] \<Rightarrow> None
      | c # _ \<Rightarrow>
          if c = CHR '';'' then None
          else (let t = strip (takeWhile (\<lambda>x. x \<noteq> CHR '';'') line)
                in if t = [] then None else Some t))"

definition example_token_file :: string where
  "example_token_file =
     [LF] @ ''; Comment'' @ [LF] @ ''token1'' @ [LF] @ ''token2 ; inline'' @ [LF]
       @ '' token3'' @ [LF] @ [LF]"

section \<open>HTTP ingress: webapp.py\<close>

text \<open>
  A decoded JSON document. An object is the list of its items; Python builds a dict from
  it, so a key is looked up with \<open>map_of\<close>. A float is a finite rational, a NaN or an
  infinity (\<open>json.loads\<close> accepts all of them).
\<close>

datatype pyfloat = Finite rat | NaN | PosInf | NegInf

datatype json =
    JNull
  | JBool bool
  | JInt int
  | JFloat pyfloat
  | JStr string
  | JList "json list"
  | JObj "(string \<times> json) list"

text \<open>
  What the program takes from Python and from its libraries, and is no code of the
  repository: how \<open>str()\<close> renders a value that is no string, which strings \<open>int()\<close>
  reads as an integer, which texts \<open>json.loads\<close> accepts, and the two escaping
  functions of \<open>discord.utils\<close>.
\<close>

record externals =
  repr_json :: "json \<Rightarrow> string"
  int_str :: "string \<Rightarrow> int option"
  json_loads :: "string \<Rightarrow> json option"
  escape_mentions :: "string \<Rightarrow> string"
  escape_markdown :: "string \<Rightarrow> string"

text \<open>\<open>str(v)\<close>: a string is returned as it is.\<close>

fun py_str :: "externals \<Rightarrow> json \<Rightarrow> string" where
  "py_str ext (JStr s) = s"
| "py_str ext v = repr_json ext v"

text \<open>\<open>int(v)\<close>: a float is truncated toward zero; a string is parsed.\<close>

fun py_int :: "externals \<Rightarrow> json \<Rightarrow> exn + int" where
  "py_int ext (JInt n) = Inr n"
| "py_int ext (JBool b) = Inr (if b then 1 else 0)"
| "py_int ext (JFloat (Finite x)) = Inr (if 0 \<le> x then \<lfloor>x\<rfloor> else \<lceil>x\<rceil>)"
| "py_int ext (JFloat NaN) = Inl ValueError"
| "py_int ext (JFloat PosInf) = Inl OverflowError"
| "py_int ext (JFloat NegInf) = Inl OverflowError"
| "py_int ext (JStr s) = (case int_str ext s of None \<Rightarrow> Inl ValueError | Some n \<Rightarrow> Inr n)"
| "py_int ext JNull = Inl TypeError"
| "py_int ext (JList _) = Inl TypeError"
| "py_int ext (JObj _) = Inl TypeError"

text \<open>\<open>data[key]\<close> with a string key: KeyError on a dict without the key, TypeError on
  anything that is no dict.\<close>

fun getitem :: "json \<Rightarrow> string \<Rightarrow> exn + json" where
  "getitem (JObj items) key =
     (case map_of items key of None \<Rightarrow> Inl (KeyError key) | Some v \<Rightarrow> Inr v)"
| "getitem _ key = Inl TypeError"

record payload =
  token :: string
  hostname :: string
  ip :: json
  num_players :: int
  max_players :: int
  player_name :: string

text \<open>\<open>NotifyPayload.construct\<close>: the arguments are evaluated in the order written;
  \<open>join_ip\<close> is stored as it is, the other fields go through \<open>str\<close> or \<open>int\<close>.\<close>

definition construct :: "externals \<Rightarrow> json \<Rightarrow> exn + payload" where
  "construct ext data =
     (case getitem data ''token'' of Inl e \<Rightarrow> Inl e | Inr v1 \<Rightarrow>
     (case getitem data ''hostname'' of Inl e \<Rightarrow> Inl e | Inr v2 \<Rightarrow>
     (case getitem data ''join_ip'' of Inl e \<Rightarrow> Inl e | Inr v3 \<Rightarrow>
     (case getitem data ''num_players'' of Inl e \<Rightarrow> Inl e | Inr v4 \<Rightarrow>
     (case py_int ext v4 of Inl e \<Rightarrow> Inl e | Inr n \<Rightarrow>
     (case getitem data ''max_players'' of Inl e \<Rightarrow> Inl e | Inr v5 \<Rightarrow>
     (case py_int ext v5 of Inl e \<Rightarrow> Inl e | Inr m \<Rightarrow>
     (case getitem data ''player_name'' of Inl e \<Rightarrow> Inl e | Inr v6 \<Rightarrow>
        Inr \<lparr>token = py_str ext v1, hostname = py_str ext v2, ip = v3,
             num_players = n, max_players = m, player_name = py_str ext v6\<rparr>))))))))"

definition required_keys :: "string list" where
  "required_keys =
     [''token'', ''hostname'', ''join_ip'', ''num_players'', ''max_players'', ''player_name'']"

text \<open>
  A request is what reading its body gives: the text, or the error of the transport.
  \<open>request.json()\<close> reads the body and decodes it (JSONDecodeError is a ValueError);
  \<open>request.text()\<close> reads the body.
\<close>

record request =
  read_body :: "exn + string"

definition request_json :: "externals \<Rightarrow> request \<Rightarrow> exn + json" where
  "request_json ext req =
     (case read_body req of
        Inl e \<Rightarrow> Inl e
      | Inr text \<Rightarrow> (case json_loads ext text of None \<Rightarrow> Inl ValueError | Some d \<Rightarrow> Inr d))"

definition request_text :: "request \<Rightarrow> exn + string" where
  "request_text req = read_body req"

record response =
  status :: nat
  body :: json

definition send_response :: "bool \<Rightarrow> response" where
  "send_response success =
     \<lparr>status = (if success then 200 else 400), body = JObj [(''success'', JBool success)]\<rparr>"

text \<open>
  The trace of a request: the log records of the handler (the format string of the
  source; the body is appended where the source logs it) and each run of the callback,
  with the payload it got, how it ended and the effects it had.
\<close>

datatype level = DEBUG | INFO | ERROR

datatype 'e web_effect =
    WebLog level string
  | Invoked payload "bool outcome" "'e list"

text \<open>The \<open>except Exception\<close> branch of the parsing: log the error, then the body when
  it can be read (the inner bare \<open>except\<close> passes).\<close>

definition parse_failed :: "request \<Rightarrow> 'e web_effect list" where
  "parse_failed req =
     WebLog ERROR ''Error occurred when parsing json from request: %s'' #
     (case request_text req of
        Inr raw \<Rightarrow> [WebLog ERROR (''Body: '' @ raw)]
      | Inl _ \<Rightarrow> [])"

text \<open>The first \<open>try\<close> of \<open>_handle_webrequest\<close>: \<open>Returned None\<close> is \<open>data is None\<close>
  after a caught error; an error that is no \<open>Exception\<close> leaves the handler.\<close>

definition parse_request ::
  "externals \<Rightarrow> request \<Rightarrow> payload option outcome \<times> 'e web_effect list" where
  "parse_request ext req =
     (case request_json ext req of
        Inl e \<Rightarrow> if is_Exception e then (Returned None, parse_failed req) else (Raised e, [])
      | Inr d \<Rightarrow>
          (case construct ext d of
             Inl e \<Rightarrow>
               if is_Exception e
               then (Returned None,
                     [WebLog DEBUG ''Received valid JSON:'', WebLog DEBUG ''%s'']
                       @ parse_failed req)
               else (Raised e, [WebLog DEBUG ''Received valid JSON:'', WebLog DEBUG ''%s''])
           | Inr data \<Rightarrow>
               (Returned (Some data),
                [WebLog DEBUG ''Received valid JSON:'', WebLog DEBUG ''%s''])))"

definition handle_webrequest ::
  "externals \<Rightarrow> (payload \<Rightarrow> bool outcome \<times> 'e list) \<Rightarrow> request
     \<Rightarrow> response outcome \<times> 'e web_effect list" where
  "handle_webrequest ext callback req =
     (case parse_request ext req of
        (Raised e, effs) \<Rightarrow> (Raised e, effs)
      | (Returned None, effs) \<Rightarrow> (Returned (send_response False), effs)
      | (Returned (Some data), effs) \<Rightarrow>
          (case callback data of
             (Returned success, ceffs) \<Rightarrow>
               (Returned (send_response success),
                effs @ [Invoked data (Returned success) ceffs])
           | (Raised e, ceffs) \<Rightarrow>
               (Returned (send_response False),
                effs @ [Invoked data (Raised e) ceffs,
                        WebLog ERROR ''Failed to process request?''])))"

text \<open>The runs of the callback in a trace.\<close>

fun invocations :: "'e web_effect list \<Rightarrow> (payload \<times> bool outcome) list" where
  "invocations [] = []"
| "invocations (WebLog _ _ # es) = invocations es"
| "invocations (Invoked data r _ # es) = (data, r) # invocations es"

text \<open>
  \<open>NotifyWebApp.start\<close> and \<open>_init_webapp\<close>. The listener's state is the site handle.
  The three steps that can fail are the runner's setup, the construction of the site
  and the site's start; \<open>net\<close> says which of them fails and how.
\<close>

datatype site = TCPSite int bool

record webapp =
  site_handle :: "site option"

record net =
  runner_setup :: "exn option"
  site_new :: "exn option"
  site_start :: "exn option"

definition init_failed ::
  "exn \<Rightarrow> webapp \<Rightarrow> unit outcome \<times> webapp \<times> (level \<times> string) list" where
  "init_failed e w =
     (if is_Exception e
      then (Returned (), w,
            [(INFO, ''Initializing HTTP server...''),
             (ERROR, ''Error initializing web server: %s'')])
      else (Raised e, w, [(INFO, ''Initializing HTTP server...'')]))"

definition init_webapp ::
  "webapp \<Rightarrow> net \<Rightarrow> int \<Rightarrow> bool \<Rightarrow> unit outcome \<times> webapp \<times> (level \<times> string) list" where
  "init_webapp w nt port ssl_context =
     (case runner_setup nt of
        Some e \<Rightarrow> init_failed e w
      | None \<Rightarrow>
          (case site_new nt of
             Some e \<Rightarrow> init_failed e w
           | None \<Rightarrow>
               (let w1 = w\<lparr>site_handle := Some (TCPSite port ssl_context)\<rparr>
                in case site_start nt of
                     Some e \<Rightarrow> init_failed e w1
                   | None \<Rightarrow>
                       (Returned (), w1,
                        [(INFO, ''Initializing HTTP server...''),
                         (INFO, ''Started HTTP server on port %d.'')]))))"

definition start ::
  "webapp \<Rightarrow> net \<Rightarrow> int \<Rightarrow> bool \<Rightarrow> unit outcome \<times> webapp \<times> (level \<times> string) list" where
  "start w nt port ssl_context = init_webapp w nt port ssl_context"

text \<open>\<open>NotifyWebApp.__init__\<close> leaves the site handle unset.\<close>

definition new_webapp :: webapp where
  "new_webapp = \<lparr>site_handle = None\<rparr>"

section \<open>Chat session: client.py\<close>

subsection \<open>The chat platform as the client sees it\<close>

record config =
  discord_token :: string
  ping_role :: int
  channel_id :: int
  port :: int
  cert_path :: string
  key_path :: string
  test_get :: bool
  test_post :: bool

record role =
  role_id :: int
  role_name :: string
  role_mention :: string

text \<open>A channel is a text channel of a guild (its id, the guild's id), a direct-message
  channel, or a channel of another kind.\<close>

datatype channel = TextChannel int int | DMChannel int | OtherChannel int

fun chan_id :: "channel \<Rightarrow> int" where
  "chan_id (TextChannel i _) = i"
| "chan_id (DMChannel i) = i"
| "chan_id (OtherChannel i) = i"

fun is_DMChannel :: "channel \<Rightarrow> bool" where
  "is_DMChannel (DMChannel _) = True"
| "is_DMChannel _ = False"

text \<open>A member of a guild with the ids of the roles it holds (\<open>member.roles\<close>; two
  roles are equal when their ids are).\<close>

record member =
  member_id :: int
  member_guild :: int
  member_mention :: string
  display_name :: string
  roles :: "int list"

record message =
  content :: string
  author_id :: int
  msg_channel :: channel

record embed =
  title :: string
  description :: string
  color :: int

text \<open>
  The platform's state as the library caches it: the channels (\<open>get_channel\<close>), the
  roles of each guild (\<open>guild.get_role\<close>) and its members (\<open>guild.get_member\<close>).
\<close>

record platform =
  channels :: "int \<rightharpoonup> channel"
  guild_roles :: "int \<Rightarrow> int \<rightharpoonup> role"
  guild_members :: "int \<Rightarrow> int \<rightharpoonup> member"

text \<open>
  The calls the client makes on the platform. Whether a call fails, and with which
  error, is given from outside (\<open>fail\<close>: \<open>None\<close> when the call succeeds). A trace
  records every call with its result, and every log record by the format string of the
  source.
\<close>

datatype call =
    Send channel string "embed option"
  | AddRoles member role string
  | RemoveRoles member role string
  | Close

datatype effect = Log level string | Platform call "exn option"

fun platform_calls :: "effect list \<Rightarrow> call list" where
  "platform_calls [] = []"
| "platform_calls (Log _ _ # es) = platform_calls es"
| "platform_calls (Platform c _ # es) = c # platform_calls es"

subsection \<open>The client\<close>

text \<open>
  \<open>is_ready\<close> and \<open>is_closed\<close> are the library's flags (\<open>discord.Client.is_ready()\<close>,
  \<open>is_closed()\<close>), \<open>user_id\<close> is \<open>self.user.id\<close> (\<open>None\<close> before login); the other
  fields are the attributes \<open>__init__\<close> sets.
\<close>

record client =
  is_ready :: bool
  is_closed :: bool
  user_id :: "int option"
  init_done :: bool
  exitcode :: int
  my_channel :: "channel option"
  my_guild :: "int option"
  my_ping_role :: "role option"
  cfg :: config
  valid_tokens :: "string list"

text \<open>\<open>NotifyClient.__init__\<close>: the token file is loaded and must give a token.\<close>

definition new_client :: "config \<Rightarrow> (string \<rightharpoonup> string) \<Rightarrow> exn + client" where
  "new_client conf fs =
     (case get_valid_tokens fs ''.tokens.txt'' of
        Inl e \<Rightarrow> Inl e
      | Inr tokens \<Rightarrow>
          if tokens = [] then Inl (AssertionError ''You must insert tokens in .tokens.txt file!'')
          else Inr \<lparr>is_ready = False, is_closed = False, user_id = None, init_done = False,
                    exitcode = 0, my_channel = None, my_guild = None, my_ping_role = None,
                    cfg = conf, valid_tokens = tokens\<rparr>)"

text \<open>\<open>await self.close()\<close> closes the client and clears its ready flag.\<close>

definition close :: "client \<Rightarrow> client" where
  "close c = c\<lparr>is_ready := False, is_closed := True\<rparr>"

definition on_ready :: "client \<Rightarrow> platform \<Rightarrow> client \<times> effect list" where
  "on_ready c p =
     (case channels p (channel_id (cfg c)) of
        None \<Rightarrow>
          (close (c\<lparr>exitcode := 1\<rparr>),
           [Log INFO ''Logged on as %s'', Log ERROR ''Channel with id %d does not exist!'',
            Platform Close None])
      | Some chnl \<Rightarrow>
          (case chnl of
             TextChannel i g \<Rightarrow>
               (let c1 = c\<lparr>my_channel := Some chnl, my_guild := Some g,
                           my_ping_role := guild_roles p g (ping_role (cfg c))\<rparr>
                in if my_ping_role c1 = None
                   then (close (c1\<lparr>exitcode := 1\<rparr>),
                         [Log INFO ''Logged on as %s'',
                          Log ERROR ''Role with id %d does not exist!'', Platform Close None])
                   else (c1\<lparr>init_done := True\<rparr>, [Log INFO ''Logged on as %s'']))
           | _ \<Rightarrow>
               (close (c\<lparr>exitcode := 1\<rparr>),
                [Log INFO ''Logged on as %s'', Log ERROR ''Channel %d must be a text channel!'',
                 Platform Close None])))"

text \<open>The life of a session: the library logs in and marks an open client ready, or
  loses the connection; \<open>on_ready\<close> runs on a client the library marked ready.\<close>

definition gateway_ready :: "client \<Rightarrow> int \<Rightarrow> client" where
  "gateway_ready c uid = (if is_closed c then c else c\<lparr>is_ready := True, user_id := Some uid\<rparr>)"

definition gateway_lost :: "client \<Rightarrow> client" where
  "gateway_lost c = c\<lparr>is_ready := False\<rparr>"

inductive reachable :: "client \<Rightarrow> bool" where
  start_up: "new_client conf fs = Inr c \<Longrightarrow> reachable c"
| ready: "reachable c \<Longrightarrow> reachable (gateway_ready c uid)"
| lost: "reachable c \<Longrightarrow> reachable (gateway_lost c)"
| resolve: "reachable c \<Longrightarrow> reachable (fst (on_ready c p))"

definition resolved :: "client \<Rightarrow> bool" where
  "resolved c = (my_channel c \<noteq> None \<and> my_guild c \<noteq> None \<and> my_ping_role c \<noteq> None)"

subsection \<open>Rendering\<close>

function show_nat :: "nat \<Rightarrow> string" where
  "show_nat n =
     (if n < 10 then [char_of (48 + n)]
      else show_nat (n div 10) @ [char_of (48 + n mod 10)])"
  by pat_completeness auto
termination
  by (relation "measure id") auto

declare show_nat.simps [simp del]

definition show_int :: "int \<Rightarrow> string" where
  "show_int i = (if i < 0 then ''-'' @ show_nat (nat (- i)) else show_nat (nat i))"

definition escape_everything :: "externals \<Rightarrow> string \<Rightarrow> string" where
  "escape_everything ext data = escape_markdown ext (escape_mentions ext data)"

text \<open>\<open>_escape_everything\<close> on a payload field that is no string: the regular
  expression of \<open>escape_mentions\<close> raises TypeError.\<close>

fun escape_json :: "externals \<Rightarrow> json \<Rightarrow> exn + string" where
  "escape_json ext (JStr s) = Inr (escape_everything ext s)"
| "escape_json ext _ = Inl TypeError"

subsection \<open>The dispatcher: \<open>_on_notify\<close>\<close>

definition announcement :: "externals \<Rightarrow> role \<Rightarrow> payload \<Rightarrow> string \<Rightarrow> string \<times> embed" where
  "announcement ext r data escaped_ip =
     (role_mention r @ '' **'' @ escape_everything ext (player_name data)
        @ ''** wants you to join!'' @ '' (*'' @ show_int (num_players data) @ ''*/*''
        @ show_int (max_players data) @ ''*)'',
      \<lparr>title = escape_everything ext (hostname data),
       description = [CHR 0x60] @ ''connect '' @ escaped_ip @ [CHR 0x60],
       color = 0x13e82e\<rparr>)"

text \<open>
  The two \<open>assert\<close> statements are executed (Python run without \<open>-O\<close>): the first
  needs the role and the channel, the second the token in the allow-list.
  The \<open>try\<close> block sets \<open>success\<close> only after the send; the \<open>except\<close> branch logs and
  falls through to \<open>return success\<close>, where the name is unbound. An error that is no
  \<open>DiscordException\<close> leaves the function.
\<close>

definition on_notify ::
  "client \<Rightarrow> externals \<Rightarrow> (call \<Rightarrow> exn option) \<Rightarrow> payload \<Rightarrow> bool outcome \<times> effect list" where
  "on_notify c ext fail data =
     (if \<not> is_ready c \<or> \<not> init_done c
      then (Returned False,
            [Log ERROR ''Received a POST request while Discord bot is not ready!''])
      else if test_post (cfg c)
      then (Returned True, [Log INFO ''Testing POST. Not sending a mention.''])
      else
        (case (my_ping_role c, my_channel c) of
           (Some r, Some ch) \<Rightarrow>
             if token data \<notin> set (valid_tokens c)
             then (Raised (AssertionError ''Invalid token.''), [])
             else
               (case escape_json ext (ip data) of
                  Inl e \<Rightarrow> (Raised e, [])
                | Inr escaped_ip \<Rightarrow>
                    (let (text, emb) = announcement ext r data escaped_ip;
                         cl = Send ch text (Some emb)
                     in case fail cl of
                          None \<Rightarrow> (Returned True, [Platform cl None])
                        | Some e \<Rightarrow>
                            if is_DiscordException e
                            then (Raised (UnboundLocalError ''success''),
                                  [Platform cl (Some e),
                                   Log ERROR ''Error sending a mention: %s''])
                            else (Raised e, [Platform cl (Some e)])))
         | _ \<Rightarrow> (Raised (AssertionError []), [])))"

subsection \<open>Role commands\<close>

text \<open>\<open>_channel_msg\<close>: a \<open>DiscordException\<close> of the send is logged, any other error
  leaves the function. (\<open>assert channel\<close> holds of every channel object.)\<close>

definition channel_msg ::
  "(call \<Rightarrow> exn option) \<Rightarrow> string \<Rightarrow> channel \<Rightarrow> unit outcome \<times> effect list" where
  "channel_msg fail msg ch =
     (let cl = Send ch msg None
      in case fail cl of
           None \<Rightarrow> (Returned (), [Platform cl None])
         | Some e \<Rightarrow>
             if is_DiscordException e
             then (Returned (),
                   [Platform cl (Some e), Log ERROR ''Error sending a channel message: %s''])
             else (Raised e, [Platform cl (Some e)]))"

text \<open>The \<open>except discord.DiscordException\<close> branch of both commands: log, then try to
  send the failure notice; the bare \<open>except\<close> around that send passes on every error.\<close>

definition role_call_failed ::
  "(call \<Rightarrow> exn option) \<Rightarrow> exn \<Rightarrow> string \<Rightarrow> string \<Rightarrow> channel \<Rightarrow> effect list
     \<Rightarrow> unit outcome \<times> effect list" where
  "role_call_failed fail e logmsg notice from_channel effs =
     (if is_DiscordException e
      then (let cl = Send from_channel notice None
            in (Returned (), effs @ [Log ERROR logmsg, Platform cl (fail cl)]))
      else (Raised e, effs))"

text \<open>
  \<open>_add_ping_role\<close> and \<open>_remove_ping_role\<close>. Whether the member holds the role is read
  from the member object (\<open>member.roles\<close>). \<open>member.add_roles\<close> and
  \<open>member.remove_roles\<close> are calls on the platform; the commands assign nothing, so the
  member object and the cache are as before when they return.
\<close>

definition add_ping_role ::
  "client \<Rightarrow> (call \<Rightarrow> exn option) \<Rightarrow> member \<Rightarrow> channel \<Rightarrow> unit outcome \<times> effect list" where
  "add_ping_role c fail m from_channel =
     (case my_ping_role c of
        None \<Rightarrow> (Raised (AssertionError []), [])
      | Some r \<Rightarrow>
          if role_id r \<in> set (roles m)
          then channel_msg fail
                 (member_mention m @ '' You already have role '' @ role_name r @ ''!'')
                 from_channel
          else
            (let grant_call = AddRoles m r ''User requested.'';
                 notice = member_mention m @ '' Failed to add role '' @ role_name r
                            @ ''. Check log.'';
                 started = [Log INFO ''Adding ping role to user %s!'']
             in case fail grant_call of
                  Some e \<Rightarrow>
                    role_call_failed fail e ''Error adding a ping role: %s'' notice from_channel
                      (started @ [Platform grant_call (Some e)])
                | None \<Rightarrow>
                    (let reply = Send from_channel
                                   (member_mention m @ '' Added role '' @ role_name r @ ''.'')
                                   None
                     in case fail reply of
                          None \<Rightarrow>
                            (Returned (),
                             started @ [Platform grant_call None, Platform reply None])
                        | Some e \<Rightarrow>
                            role_call_failed fail e ''Error adding a ping role: %s'' notice
                              from_channel
                              (started @ [Platform grant_call None, Platform reply (Some e)]))))"

definition remove_ping_role ::
  "client \<Rightarrow> (call \<Rightarrow> exn option) \<Rightarrow> member \<Rightarrow> channel \<Rightarrow> unit outcome \<times> effect list" where
  "remove_ping_role c fail m from_channel =
     (case my_ping_role c of
        None \<Rightarrow> (Raised (AssertionError []), [])
      | Some r \<Rightarrow>
          if role_id r \<notin> set (roles m)
          then channel_msg fail
                 (member_mention m @ '' You don'' @ [CHR 0x27] @ ''t have role ''
                    @ role_name r @ ''!'')
                 from_channel
          else
            (let revoke_call = RemoveRoles m r ''User requested.'';
                 notice = member_mention m @ '' Failed to remove role '' @ role_name r
                            @ ''. Check log.'';
                 started = [Log INFO ''Removing role from user %s!'']
             in case fail revoke_call of
                  Some e \<Rightarrow>
                    role_call_failed fail e ''Error removing a ping role: %s'' notice
                      from_channel (started @ [Platform revoke_call (Some e)])
                | None \<Rightarrow>
                    (let reply = Send from_channel
                                   (member_mention m @ '' Removed role '' @ role_name r @ ''.'')
                                   None
                     in case fail reply of
                          None \<Rightarrow>
                            (Returned (),
                             started @ [Platform revoke_call None, Platform reply None])
                        | Some e \<Rightarrow>
                            role_call_failed fail e ''Error removing a ping role: %s'' notice
                              from_channel
                              (started @ [Platform revoke_call None, Platform reply (Some e)]))))"

subsection \<open>Command routing: \<open>on_message\<close>\<close>

text \<open>The two \<open>if command == ...\<close> statements run one after the other; an error of the
  first ends the handler. The handler assigns no attribute of the client and changes
  nothing in the cache: both are returned as they came.\<close>

definition run_commands ::
  "client \<Rightarrow> (call \<Rightarrow> exn option) \<Rightarrow> member \<Rightarrow> channel \<Rightarrow> string
     \<Rightarrow> unit outcome \<times> effect list" where
  "run_commands c fail m ch command =
     (case (if command = ''add'' then add_ping_role c fail m ch else (Returned (), [])) of
        (Raised e, effs1) \<Rightarrow> (Raised e, effs1)
      | (Returned _, effs1) \<Rightarrow>
          (case (if command = ''remove'' then remove_ping_role c fail m ch
                 else (Returned (), [])) of
             (res, effs2) \<Rightarrow> (res, effs1 @ effs2)))"

definition on_message ::
  "client \<Rightarrow> (call \<Rightarrow> exn option) \<Rightarrow> platform \<Rightarrow> message
     \<Rightarrow> unit outcome \<times> effect list \<times> client \<times> platform" where
  "on_message c fail p msg =
     (if \<not> is_ready c \<or> \<not> init_done c
      then (Returned (), [Log DEBUG ''Received message but bot is not ready yet.''], c, p)
      else if content msg = [] \<or> hd (content msg) \<noteq> CHR ''!''
      then (Returned (), [], c, p)
      else
        (case user_id c of
           None \<Rightarrow> (Raised AttributeError, [], c, p)
         | Some uid \<Rightarrow>
             if author_id msg = uid then (Returned (), [], c, p)
             else if chan_id (msg_channel msg) \<noteq> channel_id (cfg c)
                     \<and> \<not> is_DMChannel (msg_channel msg)
             then (Returned (), [], c, p)
             else
               (case my_guild c of
                  None \<Rightarrow> (Raised (AssertionError []), [], c, p)
                | Some g \<Rightarrow>
                    (case guild_members p g (author_id msg) of
                       None \<Rightarrow> (Returned (), [], c, p)
                     | Some m \<Rightarrow>
                         (case run_commands c fail m (msg_channel msg) (tl (content msg)) of
                            (res, effs) \<Rightarrow> (res, effs, c, p))))))"

section \<open>Example inputs\<close>

text \<open>The request body of the specification's examples, what it decodes to and the
  payload built from it; a body that is no JSON; an object without the required keys.\<close>

definition dq :: "string \<Rightarrow> string" where
  "dq s = [CHR 0x22] @ s @ [CHR 0x22]"

definition example_body :: string where
  "example_body =
     ''{'' @ dq ''token'' @ '':'' @ dq ''t'' @ '','' @ dq ''hostname'' @ '':'' @ dq ''h'' @ '',''
       @ dq ''join_ip'' @ '':'' @ dq ''i'' @ '','' @ dq ''num_players'' @ '':1,''
       @ dq ''max_players'' @ '':2,'' @ dq ''player_name'' @ '':'' @ dq ''p'' @ ''}''"

definition example_json :: json where
  "example_json =
     JObj [(''token'', JStr ''t''), (''hostname'', JStr ''h''), (''join_ip'', JStr ''i''),
           (''num_players'', JInt 1), (''max_players'', JInt 2), (''player_name'', JStr ''p'')]"

definition example_payload :: payload where
  "example_payload =
     \<lparr>token = ''t'', hostname = ''h'', ip = JStr ''i'', num_players = 1, max_players = 2,
      player_name = ''p''\<rparr>"

definition example_ext :: externals where
  "example_ext =
     \<lparr>repr_json = (\<lambda>v. ''?''),
      int_str = (\<lambda>s. None),
      json_loads = (\<lambda>raw. if raw = example_body then Some example_json else None),
      escape_mentions = (\<lambda>s. s),
      escape_markdown = (\<lambda>s. s)\<rparr>"

definition example_request :: request where
  "example_request = \<lparr>read_body = Inr example_body\<rparr>"

definition malformed_request :: request where
  "malformed_request = \<lparr>read_body = Inr ''hello''\<rparr>"

definition missing_key_request :: request where
  "missing_key_request = \<lparr>read_body = Inr ''{}''\<rparr>"

definition missing_key_ext :: externals where
  "missing_key_ext = example_ext\<lparr>json_loads := (\<lambda>s. Some (JObj []))\<rparr>"

text \<open>The callbacks of the integration tests: they report success, or failure.\<close>

definition test_cb :: "bool \<Rightarrow> payload \<Rightarrow> bool outcome \<times> effect list" where
  "test_cb b data = (Returned b, [])"

text \<open>Two ways the listener can fail to start: the runner's setup fails, or the port
  cannot be bound when the site starts.\<close>

definition setup_failure :: net where
  "setup_failure =
     \<lparr>runner_setup = Some (OSError ''setup failed''), site_new = None, site_start = None\<rparr>"

definition bind_failure :: net where
  "bind_failure =
     \<lparr>runner_setup = None, site_new = None,
      site_start = Some (OSError ''address already in use'')\<rparr>"

text \<open>A guild 7 with the channel 1, the ping role 2 and the member 5, who does not hold
  the role; the bot is user 9. The token file is the example file of the specification.\<close>

definition example_config :: config where
  "example_config =
     \<lparr>discord_token = ''secret'', ping_role = 2, channel_id = 1, port = 3000,
      cert_path = [], key_path = [], test_get = False, test_post = False\<rparr>"

definition example_role :: role where
  "example_role = \<lparr>role_id = 2, role_name = ''LFP'', role_mention = ''<@&2>''\<rparr>"

definition example_member :: member where
  "example_member =
     \<lparr>member_id = 5, member_guild = 7, member_mention = ''<@5>'', display_name = ''Ann'',
      roles = []\<rparr>"

definition example_platform :: platform where
  "example_platform =
     \<lparr>channels = [1 \<mapsto> TextChannel 1 7],
      guild_roles = (\<lambda>g. if g = 7 then [2 \<mapsto> example_role] else Map.empty),
      guild_members = (\<lambda>g. if g = 7 then [5 \<mapsto> example_member] else Map.empty)\<rparr>"

definition example_fs :: "string \<rightharpoonup> string" where
  "example_fs = [''.tokens.txt'' \<mapsto> example_token_file]"

definition fresh_client :: client where
  "fresh_client =
     \<lparr>is_ready = False, is_closed = False, user_id = None, init_done = False,
      exitcode = 0, my_channel = None, my_guild = None, my_ping_role = None,
      cfg = example_config, valid_tokens = [''token1'', ''token2'', ''token3'']\<rparr>"

definition ready_client :: client where
  "ready_client =
     \<lparr>is_ready = True, is_closed = False, user_id = Some 9, init_done = True,
      exitcode = 0, my_channel = Some (TextChannel 1 7), my_guild = Some 7,
      my_ping_role = Some example_role,
      cfg = example_config, valid_tokens = [''token1'', ''token2'', ''token3'']\<rparr>"

definition test_post_client :: client where
  "test_post_client = ready_client\<lparr>cfg := example_config\<lparr>test_post := True\<rparr>\<rparr>"

definition valid_payload :: payload where
  "valid_payload = example_payload\<lparr>token := ''token1''\<rparr>"

text \<open>A platform on which every call succeeds, and one that refuses every call.\<close>

definition platform_ok :: "call \<Rightarrow> exn option" where
  "platform_ok cl = None"

definition platform_forbidden :: "call \<Rightarrow> exn option" where
  "platform_forbidden cl = Some (DiscordException ''Forbidden'')"

text \<open>The grant and revocation calls of a trace.\<close>

fun is_AddRoles :: "call \<Rightarrow> bool" where
  "is_AddRoles (AddRoles _ _ _) = True"
| "is_AddRoles _ = False"

fun is_RemoveRoles :: "call \<Rightarrow> bool" where
  "is_RemoveRoles (RemoveRoles _ _ _) = True"
| "is_RemoveRoles _ = False"

text \<open>The same command message handled twice in sequence. The program does not update
  the member cache; the library does, when the platform reports the member's change. So
  the cache the second handling reads is given from outside: it is the first one while
  that report has not arrived. Each time the platform may fail in its own way. The
  result is the trace of the first and of the second handling.\<close>

definition twice ::
  "client \<Rightarrow> (call \<Rightarrow> exn option) \<Rightarrow> (call \<Rightarrow> exn option) \<Rightarrow> platform \<Rightarrow> platform
     \<Rightarrow> message \<Rightarrow> effect list \<times> effect list" where
  "twice c fail1 fail2 p1 p2 msg =
     (case on_message c fail1 p1 msg of
        (res1, effs1, c1, q1) \<Rightarrow>
          (case on_message c1 fail2 p2 msg of
             (res2, effs2, c2, q2) \<Rightarrow> (effs1, effs2)))"

text \<open>When a command message reaches the role commands: the session is ready, the
  message is not the bot's own, it came in the configured channel or in a direct
  message, and its author is the member \<open>m\<close> of the guild \<open>g\<close>.\<close>

definition routed :: "client \<Rightarrow> platform \<Rightarrow> message \<Rightarrow> int \<Rightarrow> member \<Rightarrow> bool" where
  "routed c p msg g m =
     (is_ready c \<and> init_done c
      \<and> (case user_id c of None \<Rightarrow> False | Some uid \<Rightarrow> author_id msg \<noteq> uid)
      \<and> (chan_id (msg_channel msg) = channel_id (cfg c) \<or> is_DMChannel (msg_channel msg))
      \<and> my_guild c = Some g
      \<and> guild_members p g (author_id msg) = Some m)"

text \<open>What is observed of a handled request: the response (status and body) and the
  runs of the dispatcher with their results.\<close>

definition observable ::
  "response outcome \<times> 'e web_effect list
     \<Rightarrow> response outcome \<times> (payload \<times> bool outcome) list" where
  "observable r = (fst r, invocations (snd r))"

text \<open>The member once the cache shows the granted role, and the platform with that
  cache.\<close>

definition held_member :: member where
  "held_member = example_member\<lparr>roles := [2]\<rparr>"

definition updated_platform :: platform where
  "updated_platform =
     example_platform\<lparr>guild_members :=
       (\<lambda>g. if g = 7 then [5 \<mapsto> held_member] else Map.empty)\<rparr>"

definition add_message :: message where
  "add_message = \<lparr>content = ''!add'', author_id = 5, msg_channel = TextChannel 1 7\<rparr>"

definition elsewhere_message :: message where
  "elsewhere_message = \<lparr>content = ''!add'', author_id = 5, msg_channel = TextChannel 3 7\<rparr>"

definition unknown_message :: message where
  "unknown_message = \<lparr>content = ''!help'', author_id = 5, msg_channel = DMChannel 4\<rparr>"

section \<open>Token store: proofs\<close>

lemma str_index_None: "str_index s c = None \<longleftrightarrow> c \<notin> set s"
  by (induction s) auto

lemma str_index_take:
  "str_index s c = Some i \<Longrightarrow> take i s = takeWhile (\<lambda>x. x \<noteq> c) s"
  by (induction s arbitrary: i) (auto split: if_splits)

lemma str_index_zero: "str_index s c = Some 0 \<longleftrightarrow> (\<exists>t. s = c # t)"
  by (cases s) auto

lemma takeWhile_all: "c \<notin> set s \<Longrightarrow> takeWhile (\<lambda>x. x \<noteq> c) s = s"
  by (induction s) auto

lemma strip_Nil: "strip [] = []"
  by (simp add: strip_def)

lemma spec_token_of_line_alt:
  "spec_token_of_line line =
     (if (\<exists>t. line = CHR '';'' # t) then None
      else strip_token (takeWhile (\<lambda>x. x \<noteq> CHR '';'') line))"
  by (cases line) (auto simp: spec_token_of_line_def strip_token_def Let_def strip_Nil)

lemma token_of_line_spec: "token_of_line line = spec_token_of_line line"
proof (cases "str_index line (CHR '';'')")
  case None
  then have notin: "CHR '';'' \<notin> set line" by (simp add: str_index_None)
  then have tw: "takeWhile (\<lambda>x. x \<noteq> CHR '';'') line = line" by (rule takeWhile_all)
  from notin have "\<not> (\<exists>t. line = CHR '';'' # t)" by auto
  then have "spec_token_of_line line = strip_token line"
    unfolding spec_token_of_line_alt tw by simp
  moreover from None have "token_of_line line = strip_token line"
    by (simp add: token_of_line_def)
  ultimately show ?thesis by simp
next
  case (Some i)
  show ?thesis
  proof (cases "i = 0")
    case True
    with Some have "\<exists>t. line = CHR '';'' # t" by (simp add: str_index_zero)
    then have "spec_token_of_line line = None"
      unfolding spec_token_of_line_alt by simp
    moreover from Some True have "token_of_line line = None"
      by (simp add: token_of_line_def)
    ultimately show ?thesis by simp
  next
    case False
    with Some have "\<not> (\<exists>t. line = CHR '';'' # t)"
      using str_index_zero [of line "CHR '';''"] by auto
    then have "spec_token_of_line line = strip_token (takeWhile (\<lambda>x. x \<noteq> CHR '';'') line)"
      unfolding spec_token_of_line_alt by simp
    moreover from Some False have "token_of_line line = strip_token (take i line)"
      by (simp add: token_of_line_def)
    ultimately show ?thesis using str_index_take [OF Some] by simp
  qed
qed

lemma tokens_loop_spec:
  "tokens_loop ls acc = acc @ List.map_filter spec_token_of_line ls"
  by (induction ls arbitrary: acc)
     (auto simp: token_of_line_spec List.map_filter_simps split: option.splits)

lemma readlines_concat: "concat (readlines s) = s"
  by (induction s) (auto split: list.splits)

lemma example_token_file_tokens:
  "get_valid_tokens_text example_token_file = [''token1'', ''token2'', ''token3'']"
  by (simp add: get_valid_tokens_text_def example_token_file_def LF_def CR_def
      token_of_line_def strip_token_def strip_def is_space_def)

text \<open>
  Claim C5. Loading the token file works line by line: a line whose first character is
  \<open>;\<close> is skipped, a \<open>;\<close> further on cuts the line at that point, the rest is trimmed of
  surrounding whitespace and skipped when empty; the tokens keep the order of the file.
  The example file of the specification loads as token1, token2, token3.
\<close>

theorem get_valid_tokens_by_line:
  "get_valid_tokens_text text =
     List.map_filter spec_token_of_line (readlines (universal_newlines text))
   \<and> concat (readlines (universal_newlines text)) = universal_newlines text
   \<and> get_valid_tokens (Map.empty(''.tokens.txt'' \<mapsto> example_token_file)) ''.tokens.txt''
       = Inr [''token1'', ''token2'', ''token3'']"
proof (intro conjI)
  show "get_valid_tokens_text text =
     List.map_filter spec_token_of_line (readlines (universal_newlines text))"
    by (simp add: get_valid_tokens_text_def tokens_loop_spec)
  show "concat (readlines (universal_newlines text)) = universal_newlines text"
    by (rule readlines_concat)
  show "get_valid_tokens (Map.empty(''.tokens.txt'' \<mapsto> example_token_file)) ''.tokens.txt''
       = Inr [''token1'', ''token2'', ''token3'']"
    by (simp add: get_valid_tokens_def example_token_file_tokens)
qed

section \<open>HTTP ingress: proofs\<close>

lemma example_body_ne: "''hello'' \<noteq> example_body"
  by (simp add: example_body_def dq_def)

lemma construct_example: "construct example_ext example_json = Inr example_payload"
  by (simp add: construct_def example_json_def example_payload_def)

lemma request_json_example: "request_json example_ext example_request = Inr example_json"
  by (simp add: request_json_def example_request_def example_ext_def)

lemma request_json_malformed: "json_loads example_ext ''hello'' = None"
  using example_body_ne by (simp add: example_ext_def)

text \<open>
  Claim C7. A JSON object that has the six required keys with values of the declared
  types (strings, and integers that are not negative for the player counts) gives a
  payload that holds each of these values unchanged: \<open>str\<close> of a string and \<open>int\<close> of an
  integer are that value, and \<open>join_ip\<close> is stored as it came.
\<close>

theorem construct_preserves_fields:
  assumes "map_of items ''token'' = Some (JStr t)"
    and "map_of items ''hostname'' = Some (JStr h)"
    and "map_of items ''join_ip'' = Some (JStr i)"
    and "map_of items ''num_players'' = Some (JInt n)"
    and "map_of items ''max_players'' = Some (JInt m)"
    and "map_of items ''player_name'' = Some (JStr pn)"
    and "0 \<le> n" and "0 \<le> m"
  shows "construct ext (JObj items) =
           Inr \<lparr>token = t, hostname = h, ip = JStr i, num_players = n, max_players = m,
                player_name = pn\<rparr>
         \<and> py_str ext (JStr t) = t \<and> py_str ext (JStr h) = h \<and> py_str ext (JStr pn) = pn
         \<and> py_int ext (JInt n) = Inr n \<and> py_int ext (JInt m) = Inr m"
  using assms by (simp add: construct_def)

lemma py_int_Exception: "py_int ext v = Inl e \<Longrightarrow> is_Exception e"
  by (induction ext v rule: py_int.induct) (auto split: option.splits)

lemma getitem_Exception: "getitem d k = Inl e \<Longrightarrow> is_Exception e"
  by (cases d) (auto split: option.splits)

lemma construct_Exception: "construct ext d = Inl e \<Longrightarrow> is_Exception e"
  unfolding construct_def
  by (auto split: sum.splits dest: py_int_Exception getitem_Exception)

lemma construct_missing_key:
  "k \<in> set required_keys \<Longrightarrow> map_of items k = None \<Longrightarrow> construct ext (JObj items) \<noteq> Inr data"
  unfolding construct_def required_keys_def
  by (auto split: sum.splits option.splits)

lemma invocations_append: "invocations (xs @ ys) = invocations xs @ invocations ys"
  by (induction xs rule: invocations.induct) auto

lemma invocations_parse_failed: "invocations (parse_failed req) = []"
  by (simp add: parse_failed_def split: sum.splits)


lemma parse_request_malformed:
  "request_json ext req = Inl e \<Longrightarrow> is_Exception e \<Longrightarrow>
     parse_request ext req = (Returned None, parse_failed req)"
  by (simp add: parse_request_def)

lemma parse_request_bad_fields:
  "request_json ext req = Inr d \<Longrightarrow> construct ext d = Inl e \<Longrightarrow>
     parse_request ext req =
       (Returned None,
        [WebLog DEBUG ''Received valid JSON:'', WebLog DEBUG ''%s''] @ parse_failed req)"
  by (simp add: parse_request_def construct_Exception)

lemma parse_request_ok:
  "request_json ext req = Inr d \<Longrightarrow> construct ext d = Inr data \<Longrightarrow>
     parse_request ext req =
       (Returned (Some data), [WebLog DEBUG ''Received valid JSON:'', WebLog DEBUG ''%s''])"
  by (simp add: parse_request_def)

lemma handle_not_json:
  assumes "read_body req = Inr raw" and "json_loads ext raw = None"
  shows "fst (handle_webrequest ext callback req) = Returned (send_response False)
         \<and> invocations (snd (handle_webrequest ext callback req)) = []"
proof -
  from assms have "request_json ext req = Inl ValueError"
    by (simp add: request_json_def)
  then show ?thesis
    by (simp add: handle_webrequest_def parse_request_malformed invocations_parse_failed)
qed

lemma handle_missing_key:
  assumes "request_json ext req = Inr (JObj items)"
    and "k \<in> set required_keys" and "map_of items k = None"
  shows "fst (handle_webrequest ext callback req) = Returned (send_response False)
         \<and> invocations (snd (handle_webrequest ext callback req)) = []"
proof -
  from assms(2,3) obtain e where "construct ext (JObj items) = Inl e"
    using construct_missing_key [of k items ext] by (cases "construct ext (JObj items)") auto
  with assms(1) show ?thesis
    by (simp add: handle_webrequest_def parse_request_bad_fields invocations_parse_failed)
qed

lemma handle_parsed:
  assumes "request_json ext req = Inr d" and "construct ext d = Inr data"
  shows "invocations (snd (handle_webrequest ext callback req)) = [(data, fst (callback data))]
         \<and> fst (handle_webrequest ext callback req)
             = Returned (send_response (fst (callback data) = Returned True))"
proof -
  obtain r ceffs where cb: "callback data = (r, ceffs)" by (cases "callback data")
  show ?thesis
  proof (cases r)
    case (Returned b)
    with assms cb show ?thesis
      by (simp add: handle_webrequest_def parse_request_ok invocations_append)
  next
    case (Raised e)
    with assms cb show ?thesis
      by (simp add: handle_webrequest_def parse_request_ok invocations_append)
  qed
qed

text \<open>
  Claim C4. A POST whose body is no JSON, or is an object that lacks one of the six
  required keys, is answered with status 400 and \<open>{success: false}\<close>, and the callback
  is not run. A request that parses runs the callback exactly once, on the payload, and
  is answered with status 200 and \<open>{success: true}\<close> when the callback returns true,
  with status 400 and \<open>{success: false}\<close> otherwise (it returned false, or raised).
\<close>

theorem handle_webrequest_responses:
  "(read_body req = Inr raw \<and> json_loads ext raw = None \<longrightarrow>
      fst (handle_webrequest ext callback req) = Returned (send_response False)
      \<and> invocations (snd (handle_webrequest ext callback req)) = [])
   \<and> (request_json ext req = Inr (JObj items) \<and> k \<in> set required_keys
        \<and> map_of items k = None \<longrightarrow>
      fst (handle_webrequest ext callback req) = Returned (send_response False)
      \<and> invocations (snd (handle_webrequest ext callback req)) = [])
   \<and> (request_json ext req = Inr d \<and> construct ext d = Inr data \<longrightarrow>
      invocations (snd (handle_webrequest ext callback req)) = [(data, fst (callback data))]
      \<and> fst (handle_webrequest ext callback req)
          = Returned (send_response (fst (callback data) = Returned True)))
   \<and> send_response True = \<lparr>status = 200, body = JObj [(''success'', JBool True)]\<rparr>
   \<and> send_response False = \<lparr>status = 400, body = JObj [(''success'', JBool False)]\<rparr>"
  using handle_not_json [of req raw ext callback]
    handle_missing_key [of ext req items k callback]
    handle_parsed [of ext req d data callback]
  by (simp add: send_response_def)

lemma request_json_missing: "request_json missing_key_ext missing_key_request = Inr (JObj [])"
  by (simp add: request_json_def missing_key_ext_def missing_key_request_def)

theorem handle_webrequest_responses_witness:
  "fst (handle_webrequest example_ext (test_cb True) malformed_request)
     = Returned \<lparr>status = 400, body = JObj [(''success'', JBool False)]\<rparr>
   \<and> invocations (snd (handle_webrequest example_ext (test_cb True) malformed_request)) = []
   \<and> fst (handle_webrequest missing_key_ext (test_cb True) missing_key_request)
     = Returned \<lparr>status = 400, body = JObj [(''success'', JBool False)]\<rparr>
   \<and> invocations (snd (handle_webrequest missing_key_ext (test_cb True) missing_key_request))
       = []
   \<and> fst (handle_webrequest example_ext (test_cb True) example_request)
     = Returned \<lparr>status = 200, body = JObj [(''success'', JBool True)]\<rparr>
   \<and> invocations (snd (handle_webrequest example_ext (test_cb True) example_request))
       = [(example_payload, Returned True)]
   \<and> fst (handle_webrequest example_ext (test_cb False) example_request)
     = Returned \<lparr>status = 400, body = JObj [(''success'', JBool False)]\<rparr>"
proof -
  have a: "read_body malformed_request = Inr ''hello''"
    by (simp add: malformed_request_def)
  have k: "''token'' \<in> set required_keys" by (simp add: required_keys_def)
  have m: "map_of ([] :: (string \<times> json) list) ''token'' = None" by simp
  show ?thesis
    using handle_webrequest_responses [of malformed_request "''hello''" example_ext
        "test_cb True" "[]" "''token''" example_json example_payload]
      handle_webrequest_responses [of missing_key_request "''{}''" missing_key_ext
        "test_cb True" "[]" "''token''" example_json example_payload]
      handle_webrequest_responses [of example_request example_body example_ext
        "test_cb True" "[]" "''token''" example_json example_payload]
      handle_webrequest_responses [of example_request example_body example_ext
        "test_cb False" "[]" "''token''" example_json example_payload]
      a k m request_json_malformed request_json_example request_json_missing construct_example
    by (simp add: test_cb_def)
qed

theorem construct_preserves_fields_witness:
  "construct example_ext example_json = Inr example_payload"
  using construct_preserves_fields [of "[(''token'', JStr ''t''), (''hostname'', JStr ''h''),
      (''join_ip'', JStr ''i''), (''num_players'', JInt 1), (''max_players'', JInt 2),
      (''player_name'', JStr ''p'')]" "''t''" "''h''" "''i''" 1 2 "''p''" example_ext]
  by (simp add: example_json_def example_payload_def)



text \<open>
  Claim C10 (as stated, fails). When the site's start fails because the port cannot be
  bound, \<open>start\<close> returns normally, yet the site handle holds the site that was
  constructed before: the handle is not left unset.
\<close>

theorem start_bind_failure_keeps_site:
  "fst (start new_webapp bind_failure 8080 False) = Returned ()
   \<and> site_handle (fst (snd (start new_webapp bind_failure 8080 False)))
       = Some (TCPSite 8080 False)
   \<and> site_handle (fst (snd (start new_webapp bind_failure 8080 False))) \<noteq> None"
  by (simp add: start_def init_webapp_def init_failed_def new_webapp_def bind_failure_def)

text \<open>
  Claim C10 (amended). Every error of class \<open>Exception\<close> during the listener's
  initialization is caught and logged inside \<open>start\<close>, which returns normally and
  reports nothing to its caller. The site handle is left as it was (unset) when the
  runner's setup or the construction of the site fails; when the site's start fails,
  as when the port cannot be bound, the handle holds the site that did not start.
\<close>

theorem start_catches_exceptions:
  "(is_Exception e \<and>
      (runner_setup nt = Some e \<or> (runner_setup nt = None \<and> site_new nt = Some e)) \<longrightarrow>
      start w nt pt ssl_context =
        (Returned (), w,
         [(INFO, ''Initializing HTTP server...''),
          (ERROR, ''Error initializing web server: %s'')]))
   \<and> (is_Exception e \<and> runner_setup nt = None \<and> site_new nt = None
        \<and> site_start nt = Some e \<longrightarrow>
      start w nt pt ssl_context =
        (Returned (), w\<lparr>site_handle := Some (TCPSite pt ssl_context)\<rparr>,
         [(INFO, ''Initializing HTTP server...''),
          (ERROR, ''Error initializing web server: %s'')]))
   \<and> (runner_setup nt = None \<and> site_new nt = None \<and> site_start nt = None \<longrightarrow>
      start w nt pt ssl_context =
        (Returned (), w\<lparr>site_handle := Some (TCPSite pt ssl_context)\<rparr>,
         [(INFO, ''Initializing HTTP server...''),
          (INFO, ''Started HTTP server on port %d.'')]))"
proof (intro conjI impI)
  assume "is_Exception e \<and>
      (runner_setup nt = Some e \<or> (runner_setup nt = None \<and> site_new nt = Some e))"
  then show "start w nt pt ssl_context =
        (Returned (), w,
         [(INFO, ''Initializing HTTP server...''),
          (ERROR, ''Error initializing web server: %s'')])"
    by (auto simp: start_def init_webapp_def init_failed_def)
next
  assume "is_Exception e \<and> runner_setup nt = None \<and> site_new nt = None
        \<and> site_start nt = Some e"
  then show "start w nt pt ssl_context =
        (Returned (), w\<lparr>site_handle := Some (TCPSite pt ssl_context)\<rparr>,
         [(INFO, ''Initializing HTTP server...''),
          (ERROR, ''Error initializing web server: %s'')])"
    by (simp add: start_def init_webapp_def init_failed_def Let_def)
next
  assume "runner_setup nt = None \<and> site_new nt = None \<and> site_start nt = None"
  then show "start w nt pt ssl_context =
        (Returned (), w\<lparr>site_handle := Some (TCPSite pt ssl_context)\<rparr>,
         [(INFO, ''Initializing HTTP server...''),
          (INFO, ''Started HTTP server on port %d.'')])"
    by (simp add: start_def init_webapp_def Let_def)
qed

theorem start_catches_exceptions_witness:
  "start new_webapp setup_failure 8080 False =
     (Returned (), new_webapp,
      [(INFO, ''Initializing HTTP server...''), (ERROR, ''Error initializing web server: %s'')])
   \<and> start new_webapp bind_failure 8080 False =
     (Returned (), \<lparr>site_handle = Some (TCPSite 8080 False)\<rparr>,
      [(INFO, ''Initializing HTTP server...''), (ERROR, ''Error initializing web server: %s'')])"
  using start_catches_exceptions [of "OSError ''setup failed''" setup_failure new_webapp 8080 False]
    start_catches_exceptions [of "OSError ''address already in use''" bind_failure new_webapp
      8080 False]
  by (simp add: setup_failure_def bind_failure_def new_webapp_def)

section \<open>Chat session: proofs\<close>

subsection \<open>Readiness\<close>

text \<open>On every client the session can reach, a closed client is not ready, and a client
  that finished its initialization without a channel, a guild or a role is closed. So a
  client that passes the readiness test has all three.\<close>

lemma reachable_closed:
  "reachable c \<Longrightarrow>
     (is_closed c \<longrightarrow> \<not> is_ready c) \<and> (init_done c \<and> \<not> resolved c \<longrightarrow> is_closed c)"
proof (induction rule: reachable.induct)
  case (start_up conf fs c)
  then show ?case
    by (auto simp: new_client_def resolved_def split: sum.splits if_splits)
next
  case (ready c uid)
  then show ?case by (auto simp: gateway_ready_def resolved_def)
next
  case (lost c)
  then show ?case by (auto simp: gateway_lost_def resolved_def)
next
  case (resolve c p)
  then show ?case
    by (auto simp: on_ready_def close_def resolved_def Let_def
        split: option.splits channel.splits)
qed

lemma reachable_ready_resolved:
  "reachable c \<Longrightarrow> is_ready c \<Longrightarrow> init_done c \<Longrightarrow> resolved c"
  using reachable_closed by blast

lemma fresh_client_new: "new_client example_config example_fs = Inr fresh_client"
  by (simp add: new_client_def example_fs_def get_valid_tokens_def example_token_file_tokens
      fresh_client_def)

lemma ready_client_on_ready:
  "fst (on_ready (gateway_ready fresh_client 9) example_platform) = ready_client"
  by (simp add: on_ready_def gateway_ready_def fresh_client_def example_platform_def
      example_config_def example_role_def ready_client_def Let_def)

lemma fresh_client_reachable: "reachable fresh_client"
  using fresh_client_new by (rule reachable.start_up)

lemma ready_client_reachable: "reachable ready_client"
  using reachable.resolve [OF reachable.ready [OF fresh_client_reachable], of 9 example_platform]
  by (simp add: ready_client_on_ready)

subsection \<open>The dispatcher\<close>

lemma on_notify_not_ready:
  "\<not> is_ready c \<or> \<not> init_done c \<Longrightarrow>
     on_notify c ext fail data =
       (Returned False, [Log ERROR ''Received a POST request while Discord bot is not ready!''])"
  by (auto simp: on_notify_def)

lemma on_notify_calls:
  "platform_calls (snd (on_notify c ext fail data)) \<noteq> [] \<Longrightarrow>
     is_ready c \<and> init_done c \<and> \<not> test_post (cfg c) \<and> token data \<in> set (valid_tokens c)
     \<and> (\<exists>ch msg emb. my_channel c = Some ch
          \<and> platform_calls (snd (on_notify c ext fail data)) = [Send ch msg (Some emb)])"
  by (auto simp: on_notify_def Let_def split: if_splits option.splits sum.splits prod.splits)

text \<open>
  Claim C1. On a client the session can reach, when the session is not ready (the
  library's ready flag is down, the initialization is not done, or the channel, the
  guild or the role is not resolved) \<open>_on_notify\<close> returns false and makes no call on
  the platform. Whenever it makes a call, that call is one send to the resolved channel,
  the session was ready, and the token of the event is in the allow-list: the membership
  test comes before the send.
\<close>

theorem on_notify_needs_ready:
  assumes "reachable c"
  shows "(\<not> is_ready c \<or> \<not> init_done c \<or> \<not> resolved c \<longrightarrow>
            on_notify c ext fail data =
              (Returned False,
               [Log ERROR ''Received a POST request while Discord bot is not ready!''])
            \<and> platform_calls (snd (on_notify c ext fail data)) = [])
         \<and> (platform_calls (snd (on_notify c ext fail data)) \<noteq> [] \<longrightarrow>
              is_ready c \<and> init_done c \<and> resolved c \<and> token data \<in> set (valid_tokens c)
              \<and> (\<exists>ch msg emb. my_channel c = Some ch
                   \<and> platform_calls (snd (on_notify c ext fail data))
                       = [Send ch msg (Some emb)]))"
proof (intro conjI impI)
  assume nr: "\<not> is_ready c \<or> \<not> init_done c \<or> \<not> resolved c"
  with assms have "\<not> is_ready c \<or> \<not> init_done c"
    using reachable_ready_resolved by blast
  then have eq: "on_notify c ext fail data =
       (Returned False, [Log ERROR ''Received a POST request while Discord bot is not ready!''])"
    by (rule on_notify_not_ready)
  show "on_notify c ext fail data =
       (Returned False, [Log ERROR ''Received a POST request while Discord bot is not ready!''])"
    by (rule eq)
  show "platform_calls (snd (on_notify c ext fail data)) = []"
    by (simp add: eq)
next
  assume calls: "platform_calls (snd (on_notify c ext fail data)) \<noteq> []"
  note facts = on_notify_calls [OF calls]
  from facts show "is_ready c" by simp
  from facts show "init_done c" by simp
  from facts assms show "resolved c" using reachable_ready_resolved by blast
  from facts show "token data \<in> set (valid_tokens c)" by simp
  from facts show "\<exists>ch msg emb. my_channel c = Some ch
      \<and> platform_calls (snd (on_notify c ext fail data)) = [Send ch msg (Some emb)]"
    by simp
qed

lemma on_notify_ready_ok:
  "fst (on_notify ready_client example_ext platform_ok valid_payload) = Returned True
   \<and> length (platform_calls (snd (on_notify ready_client example_ext platform_ok
        valid_payload))) = 1"
  by (simp add: on_notify_def ready_client_def example_config_def valid_payload_def
      example_payload_def platform_ok_def Let_def split: prod.splits)

theorem on_notify_needs_ready_witness:
  "reachable fresh_client \<and> reachable ready_client
   \<and> on_notify fresh_client example_ext platform_ok valid_payload =
       (Returned False, [Log ERROR ''Received a POST request while Discord bot is not ready!''])
   \<and> platform_calls (snd (on_notify ready_client example_ext platform_ok valid_payload)) \<noteq> []
   \<and> is_ready ready_client \<and> init_done ready_client \<and> resolved ready_client
   \<and> token valid_payload \<in> set (valid_tokens ready_client)"
proof -
  have ne: "platform_calls (snd (on_notify ready_client example_ext platform_ok valid_payload))
      \<noteq> []"
    using on_notify_ready_ok by auto
  have nr: "\<not> is_ready fresh_client" by (simp add: fresh_client_def)
  show ?thesis
    using on_notify_needs_ready [OF fresh_client_reachable, of example_ext platform_ok
        valid_payload]
      on_notify_needs_ready [OF ready_client_reachable, of example_ext platform_ok valid_payload]
      fresh_client_reachable ready_client_reachable ne nr
    by simp
qed

text \<open>
  Claim C3 (the code departs from it). The session is ready, test mode is off, the token
  is in the allow-list, and the platform refuses the send with a \<open>DiscordException\<close>.
  \<open>_on_notify\<close> catches and logs the error, but then raises UnboundLocalError at
  \<open>return success\<close> instead of returning false; the request handler makes a 400 of it.
\<close>

theorem on_notify_send_failure_raises:
  "fst (on_notify ready_client example_ext platform_forbidden valid_payload)
     = Raised (UnboundLocalError ''success'')
   \<and> fst (on_notify ready_client example_ext platform_forbidden valid_payload)
       \<noteq> Returned False
   \<and> Log ERROR ''Error sending a mention: %s''
       \<in> set (snd (on_notify ready_client example_ext platform_forbidden valid_payload))"
  by (simp add: on_notify_def ready_client_def example_config_def valid_payload_def
      example_payload_def platform_forbidden_def Let_def split: prod.splits)

theorem on_notify_send_failure_raises_witness:
  "is_ready ready_client \<and> init_done ready_client \<and> \<not> test_post (cfg ready_client)
   \<and> token valid_payload \<in> set (valid_tokens ready_client)
   \<and> platform_forbidden (Send (TextChannel 1 7) [] None) = Some (DiscordException ''Forbidden'')
   \<and> (\<exists>e. fst (on_notify ready_client example_ext platform_forbidden valid_payload)
              = Raised e)"
  using on_notify_send_failure_raises
  by (simp add: ready_client_def example_config_def valid_payload_def platform_forbidden_def)

text \<open>
  Claim C9. With the test-post flag set and the session ready, \<open>_on_notify\<close> returns
  true for every event, before the token is looked at and without a call on the platform.
  So a POST that parses and carries a token outside the allow-list is answered with
  status 200 and \<open>{success: true}\<close>.
\<close>

theorem test_post_skips_token_check:
  assumes "is_ready c" and "init_done c" and "test_post (cfg c)"
  shows "on_notify c ext fail data =
           (Returned True, [Log INFO ''Testing POST. Not sending a mention.''])
         \<and> platform_calls (snd (on_notify c ext fail data)) = []
         \<and> (request_json ext req = Inr d \<and> construct ext d = Inr data
              \<and> token data \<notin> set (valid_tokens c) \<longrightarrow>
            fst (handle_webrequest ext (on_notify c ext fail) req)
              = Returned \<lparr>status = 200, body = JObj [(''success'', JBool True)]\<rparr>)"
proof -
  from assms have eq: "on_notify c ext fail data =
      (Returned True, [Log INFO ''Testing POST. Not sending a mention.''])"
    by (simp add: on_notify_def)
  show ?thesis
    using handle_parsed [of ext req d data "on_notify c ext fail"]
    by (auto simp: eq send_response_def)
qed

theorem test_post_skips_token_check_witness:
  "token example_payload \<notin> set (valid_tokens test_post_client)
   \<and> on_notify test_post_client example_ext platform_ok example_payload =
       (Returned True, [Log INFO ''Testing POST. Not sending a mention.''])
   \<and> fst (handle_webrequest example_ext
            (on_notify test_post_client example_ext platform_ok) example_request)
       = Returned \<lparr>status = 200, body = JObj [(''success'', JBool True)]\<rparr>"
proof -
  have a: "is_ready test_post_client" "init_done test_post_client"
      "test_post (cfg test_post_client)"
    by (simp_all add: test_post_client_def ready_client_def)
  have t: "token example_payload \<notin> set (valid_tokens test_post_client)"
    by (simp add: test_post_client_def ready_client_def example_payload_def)
  show ?thesis
    using test_post_skips_token_check [OF a, of example_ext platform_ok example_payload
        example_request example_json]
      t request_json_example construct_example
    by simp
qed

lemma parse_request_None_invocations:
  "parse_request ext req = (Returned None, effs) \<Longrightarrow> invocations effs = []"
  by (auto simp: parse_request_def invocations_parse_failed invocations_append
      split: sum.splits if_splits)

lemma handle_malformed:
  "parse_request ext req = (Returned None, effs) \<Longrightarrow>
     handle_webrequest ext callback req = (Returned (send_response False), effs)"
  by (simp add: handle_webrequest_def)

lemma on_notify_invalid_token:
  assumes "is_ready c" and "init_done c" and "\<not> test_post (cfg c)" and "resolved c"
    and "token data \<notin> set (valid_tokens c)"
  shows "on_notify c ext fail data = (Raised (AssertionError ''Invalid token.''), [])"
  using assms by (auto simp: on_notify_def resolved_def)

lemma parse_request_malformed_example:
  "parse_request example_ext malformed_request
     = (Returned None, parse_failed malformed_request)"
proof -
  have "request_json example_ext malformed_request = Inl ValueError"
    using request_json_malformed by (simp add: request_json_def malformed_request_def)
  then show ?thesis by (simp add: parse_request_malformed)
qed

text \<open>
  Claim C2. For every POST whose body parses to a valid event with a token outside the
  allow-list, what is observed (status, body, result of the dispatcher) differs from
  what is observed of a malformed payload: the dispatcher is run once on the event and
  its result is in the trace, where a malformed payload never reaches the dispatcher.
  With the session ready and test mode off that result is the AssertionError
  "Invalid token." raised before any call on the platform, and the handler logs it in
  its own branch ("Failed to process request?") before it answers status 400 with
  \<open>{success: false}\<close>: the invalid token does not go down the malformed-payload path.
\<close>

theorem invalid_token_distinguishable:
  assumes "request_json ext req = Inr d" and "construct ext d = Inr data"
    and "token data \<notin> set (valid_tokens c)"
    and "parse_request ext req2 = (Returned None, effs2 :: effect web_effect list)"
  shows "observable (handle_webrequest ext (on_notify c ext fail) req)
           \<noteq> observable (handle_webrequest ext (on_notify c ext fail) req2)
         \<and> invocations (snd (handle_webrequest ext (on_notify c ext fail) req))
             = [(data, fst (on_notify c ext fail data))]
         \<and> invocations (snd (handle_webrequest ext (on_notify c ext fail) req2)) = []
         \<and> (is_ready c \<and> init_done c \<and> \<not> test_post (cfg c) \<and> resolved c \<longrightarrow>
              on_notify c ext fail data = (Raised (AssertionError ''Invalid token.''), [])
              \<and> handle_webrequest ext (on_notify c ext fail) req =
                  (Returned (send_response False),
                   [WebLog DEBUG ''Received valid JSON:'', WebLog DEBUG ''%s'',
                    Invoked data (Raised (AssertionError ''Invalid token.'')) [],
                    WebLog ERROR ''Failed to process request?''])
              \<and> WebLog ERROR ''Failed to process request?'' \<notin> set effs2)"
proof -
  let ?cb = "on_notify c ext fail"
  have inv1: "invocations (snd (handle_webrequest ext ?cb req)) = [(data, fst (?cb data))]"
    using handle_parsed [OF assms(1,2), of ?cb] by simp
  have h2: "handle_webrequest ext ?cb req2 = (Returned (send_response False), effs2)"
    using assms(4) by (rule handle_malformed)
  have inv2: "invocations (snd (handle_webrequest ext ?cb req2)) = []"
    using parse_request_None_invocations [OF assms(4)] by (simp add: h2)
  have diff: "observable (handle_webrequest ext ?cb req)
      \<noteq> observable (handle_webrequest ext ?cb req2)"
    by (simp add: observable_def inv1 inv2)
  have ready: "is_ready c \<and> init_done c \<and> \<not> test_post (cfg c) \<and> resolved c \<longrightarrow>
              on_notify c ext fail data = (Raised (AssertionError ''Invalid token.''), [])
              \<and> handle_webrequest ext (on_notify c ext fail) req =
                  (Returned (send_response False),
                   [WebLog DEBUG ''Received valid JSON:'', WebLog DEBUG ''%s'',
                    Invoked data (Raised (AssertionError ''Invalid token.'')) [],
                    WebLog ERROR ''Failed to process request?''])
              \<and> WebLog ERROR ''Failed to process request?'' \<notin> set effs2"
  proof (intro impI conjI)
    assume r: "is_ready c \<and> init_done c \<and> \<not> test_post (cfg c) \<and> resolved c"
    then show eq: "on_notify c ext fail data = (Raised (AssertionError ''Invalid token.''), [])"
      using on_notify_invalid_token [of c data ext fail] assms(3) by simp
    from assms(1,2) show "handle_webrequest ext (on_notify c ext fail) req =
                  (Returned (send_response False),
                   [WebLog DEBUG ''Received valid JSON:'', WebLog DEBUG ''%s'',
                    Invoked data (Raised (AssertionError ''Invalid token.'')) [],
                    WebLog ERROR ''Failed to process request?''])"
      by (simp add: handle_webrequest_def parse_request_ok eq)
    from assms(4) show "WebLog ERROR ''Failed to process request?'' \<notin> set effs2"
      by (auto simp: parse_request_def parse_failed_def split: sum.splits if_splits)
  qed
  from diff inv1 inv2 ready show ?thesis by simp
qed

theorem invalid_token_distinguishable_witness:
  "token example_payload \<notin> set (valid_tokens ready_client)
   \<and> observable (handle_webrequest example_ext (on_notify ready_client example_ext platform_ok)
        example_request)
       \<noteq> observable (handle_webrequest example_ext
            (on_notify ready_client example_ext platform_ok) malformed_request)
   \<and> handle_webrequest example_ext (on_notify ready_client example_ext platform_ok)
       example_request =
       (Returned \<lparr>status = 400, body = JObj [(''success'', JBool False)]\<rparr>,
        [WebLog DEBUG ''Received valid JSON:'', WebLog DEBUG ''%s'',
         Invoked example_payload (Raised (AssertionError ''Invalid token.'')) [],
         WebLog ERROR ''Failed to process request?''])
   \<and> invocations (snd (handle_webrequest example_ext
        (on_notify ready_client example_ext platform_ok) malformed_request)) = []"
proof -
  have a: "is_ready ready_client \<and> init_done ready_client \<and> \<not> test_post (cfg ready_client)
      \<and> resolved ready_client"
    by (simp add: ready_client_def example_config_def resolved_def)
  have t: "token example_payload \<notin> set (valid_tokens ready_client)"
    by (simp add: ready_client_def example_payload_def)
  note th = invalid_token_distinguishable [OF request_json_example construct_example t
      parse_request_malformed_example, of platform_ok]
  note diff = th [THEN conjunct1]
  note inv2 = th [THEN conjunct2, THEN conjunct2, THEN conjunct1]
  note rdy = mp [OF th [THEN conjunct2, THEN conjunct2, THEN conjunct2] a]
  have resp: "handle_webrequest example_ext (on_notify ready_client example_ext platform_ok)
       example_request =
       (Returned \<lparr>status = 400, body = JObj [(''success'', JBool False)]\<rparr>,
        [WebLog DEBUG ''Received valid JSON:'', WebLog DEBUG ''%s'',
         Invoked example_payload (Raised (AssertionError ''Invalid token.'')) [],
         WebLog ERROR ''Failed to process request?''])"
    using rdy [THEN conjunct2, THEN conjunct1] by (simp add: send_response_def)
  from t diff resp inv2 show ?thesis by (intro conjI)
qed

subsection \<open>Command routing\<close>

lemma run_commands_other:
  "command \<noteq> ''add'' \<Longrightarrow> command \<noteq> ''remove'' \<Longrightarrow>
     run_commands c fail m ch command = (Returned (), [])"
  by (simp add: run_commands_def)

text \<open>
  Claim C8. A message that is empty, does not start with \<open>!\<close>, is the bot's own, came
  in a channel that is neither the configured one nor a direct message, whose author is
  no member of the configured guild, or whose command is neither \<open>add\<close> nor \<open>remove\<close>,
  is handled without a call on the platform (no reply, no grant, no revocation), and the
  client and the platform are left as they were.
\<close>

theorem on_message_ignores:
  assumes "content msg = [] \<or> hd (content msg) \<noteq> CHR ''!''
           \<or> user_id c = Some (author_id msg)
           \<or> (chan_id (msg_channel msg) \<noteq> channel_id (cfg c)
                \<and> \<not> is_DMChannel (msg_channel msg))
           \<or> (\<exists>g. my_guild c = Some g \<and> guild_members p g (author_id msg) = None)
           \<or> (tl (content msg) \<noteq> ''add'' \<and> tl (content msg) \<noteq> ''remove'')"
  shows "platform_calls (fst (snd (on_message c fail p msg))) = []
         \<and> snd (snd (on_message c fail p msg)) = (c, p)"
  using assms
  by (auto simp: on_message_def run_commands_other split: option.splits prod.splits)

theorem on_message_ignores_witness:
  "on_message ready_client platform_ok example_platform elsewhere_message
     = (Returned (), [], ready_client, example_platform)
   \<and> on_message ready_client platform_ok example_platform unknown_message
     = (Returned (), [], ready_client, example_platform)"
proof -
  have a: "chan_id (msg_channel elsewhere_message) \<noteq> channel_id (cfg ready_client)
      \<and> \<not> is_DMChannel (msg_channel elsewhere_message)"
    by (simp add: elsewhere_message_def ready_client_def example_config_def)
  have b: "tl (content unknown_message) \<noteq> ''add'' \<and> tl (content unknown_message) \<noteq> ''remove''"
    by (simp add: unknown_message_def)
  have c: "fst (on_message ready_client platform_ok example_platform elsewhere_message)
      = Returned ()"
    by (simp add: on_message_def elsewhere_message_def ready_client_def example_config_def)
  have d: "fst (on_message ready_client platform_ok example_platform unknown_message)
      = Returned ()"
    by (simp add: on_message_def unknown_message_def ready_client_def example_config_def
        example_platform_def run_commands_def)
  have e: "fst (snd (on_message ready_client platform_ok example_platform elsewhere_message))
      = []"
    by (simp add: on_message_def elsewhere_message_def ready_client_def example_config_def)
  have f: "fst (snd (on_message ready_client platform_ok example_platform unknown_message))
      = []"
    by (simp add: on_message_def unknown_message_def ready_client_def example_config_def
        example_platform_def run_commands_def)
  show ?thesis
    using on_message_ignores [of elsewhere_message ready_client example_platform platform_ok]
      on_message_ignores [of unknown_message ready_client example_platform platform_ok]
      a b c d e f
    by (simp add: prod_eq_iff)
qed

subsection \<open>Role commands\<close>

lemma platform_calls_append:
  "platform_calls (xs @ ys) = platform_calls xs @ platform_calls ys"
  by (induction xs rule: platform_calls.induct) auto

lemma add_held:
  assumes "my_ping_role c = Some r" and "role_id r \<in> set (roles m)"
  shows "platform_calls (snd (add_ping_role c fail m ch))
           = [Send ch (member_mention m @ '' You already have role '' @ role_name r @ ''!'')
                None]"
  using assms
  by (auto simp: add_ping_role_def channel_msg_def Let_def split: option.splits)

lemma add_not_held:
  assumes "my_ping_role c = Some r" and "role_id r \<notin> set (roles m)"
  shows "filter is_AddRoles (platform_calls (snd (add_ping_role c fail m ch)))
           = [AddRoles m r ''User requested.'']
         \<and> filter is_RemoveRoles (platform_calls (snd (add_ping_role c fail m ch))) = []
         \<and> (fail (AddRoles m r ''User requested.'') = None \<longrightarrow>
              Platform (AddRoles m r ''User requested.'') None
                \<in> set (snd (add_ping_role c fail m ch))
              \<and> count_list (platform_calls (snd (add_ping_role c fail m ch)))
                  (Send ch (member_mention m @ '' Added role '' @ role_name r @ ''.'') None)
                  = 1)
         \<and> (fail (AddRoles m r ''User requested.'') \<noteq> None \<longrightarrow>
              count_list (platform_calls (snd (add_ping_role c fail m ch)))
                  (Send ch (member_mention m @ '' Added role '' @ role_name r @ ''.'') None)
                  = 0)"
  using assms
  by (auto simp: add_ping_role_def role_call_failed_def Let_def split: option.splits)

lemma remove_not_held:
  assumes "my_ping_role c = Some r" and "role_id r \<notin> set (roles m)"
  shows "platform_calls (snd (remove_ping_role c fail m ch))
           = [Send ch (member_mention m @ '' You don'' @ [CHR 0x27] @ ''t have role ''
                         @ role_name r @ ''!'') None]"
  using assms
  by (auto simp: remove_ping_role_def channel_msg_def Let_def split: option.splits)

lemma remove_held:
  assumes "my_ping_role c = Some r" and "role_id r \<in> set (roles m)"
  shows "filter is_RemoveRoles (platform_calls (snd (remove_ping_role c fail m ch)))
           = [RemoveRoles m r ''User requested.'']
         \<and> filter is_AddRoles (platform_calls (snd (remove_ping_role c fail m ch))) = []
         \<and> (fail (RemoveRoles m r ''User requested.'') = None \<longrightarrow>
              Platform (RemoveRoles m r ''User requested.'') None
                \<in> set (snd (remove_ping_role c fail m ch))
              \<and> count_list (platform_calls (snd (remove_ping_role c fail m ch)))
                  (Send ch (member_mention m @ '' Removed role '' @ role_name r @ ''.'') None)
                  = 1)
         \<and> (fail (RemoveRoles m r ''User requested.'') \<noteq> None \<longrightarrow>
              count_list (platform_calls (snd (remove_ping_role c fail m ch)))
                  (Send ch (member_mention m @ '' Removed role '' @ role_name r @ ''.'') None)
                  = 0)"
  using assms
  by (auto simp: remove_ping_role_def role_call_failed_def Let_def split: option.splits)

lemma on_message_add:
  assumes "routed c p msg g m" and "content msg = ''!add''"
  shows "on_message c fail p msg =
           (fst (add_ping_role c fail m (msg_channel msg)),
            snd (add_ping_role c fail m (msg_channel msg)), c, p)"
proof -
  obtain res effs where a: "add_ping_role c fail m (msg_channel msg) = (res, effs)"
    by (cases "add_ping_role c fail m (msg_channel msg)")
  have "run_commands c fail m (msg_channel msg) ''add'' = (res, effs)"
    by (cases res) (simp_all add: run_commands_def a)
  with assms a show ?thesis
    by (auto simp: on_message_def routed_def split: option.splits)
qed

lemma twice_add:
  assumes "routed c p1 msg g m1" and "routed c p2 msg g m2" and "content msg = ''!add''"
  shows "twice c fail1 fail2 p1 p2 msg =
           (snd (add_ping_role c fail1 m1 (msg_channel msg)),
            snd (add_ping_role c fail2 m2 (msg_channel msg)))"
  by (simp add: twice_def on_message_add [OF assms(1,3)] on_message_add [OF assms(2,3)])

lemma add_no_revoke:
  assumes "my_ping_role c = Some r"
  shows "filter is_RemoveRoles (platform_calls (snd (add_ping_role c fail m ch))) = []"
proof (cases "role_id r \<in> set (roles m)")
  case True
  then show ?thesis using add_held [OF assms True, of fail ch] by simp
next
  case False
  then show ?thesis using add_not_held [OF assms False, of fail ch] by simp
qed

text \<open>
  Claim C6 (as stated, fails). The member does not hold the role. When the platform
  refuses both grants, the add command issued twice ends with no grant having taken
  effect: the member is left without the role. When the platform accepts every call and
  the second handling reads the member as the first did (the cache has not been
  updated), a second grant is issued after the first one succeeded.
\<close>

theorem add_twice_no_guarantee:
  "routed ready_client example_platform add_message 7 example_member
   \<and> role_id example_role \<notin> set (roles example_member)
   \<and> twice ready_client platform_forbidden platform_forbidden example_platform
       example_platform add_message =
       ([Log INFO ''Adding ping role to user %s!'',
         Platform (AddRoles example_member example_role ''User requested.'')
           (Some (DiscordException ''Forbidden'')),
         Log ERROR ''Error adding a ping role: %s'',
         Platform (Send (TextChannel 1 7) ''<@5> Failed to add role LFP. Check log.'' None)
           (Some (DiscordException ''Forbidden''))],
        [Log INFO ''Adding ping role to user %s!'',
         Platform (AddRoles example_member example_role ''User requested.'')
           (Some (DiscordException ''Forbidden'')),
         Log ERROR ''Error adding a ping role: %s'',
         Platform (Send (TextChannel 1 7) ''<@5> Failed to add role LFP. Check log.'' None)
           (Some (DiscordException ''Forbidden''))])
   \<and> twice ready_client platform_ok platform_ok example_platform example_platform
       add_message =
       ([Log INFO ''Adding ping role to user %s!'',
         Platform (AddRoles example_member example_role ''User requested.'') None,
         Platform (Send (TextChannel 1 7) ''<@5> Added role LFP.'' None) None],
        [Log INFO ''Adding ping role to user %s!'',
         Platform (AddRoles example_member example_role ''User requested.'') None,
         Platform (Send (TextChannel 1 7) ''<@5> Added role LFP.'' None) None])"
  by (simp add: twice_def on_message_def run_commands_def add_ping_role_def
      role_call_failed_def routed_def ready_client_def example_platform_def
      example_member_def example_role_def example_config_def add_message_def
      platform_forbidden_def platform_ok_def Let_def)

text \<open>
  Claim C6 (amended). With the ping role resolved: the add command of a member who holds
  the role makes zero grant calls and exactly one "already have" reply is sent; of a
  member who does not hold it, exactly one grant call is attempted and, on success,
  exactly one confirmation reply is sent (none when the grant fails). The remove command
  is the exact mirror with the revocation. Consequently, issuing add twice in sequence
  never issues a revocation, and never issues a grant in a handling that reads the role
  among the member's roles. A handling that does not read it there attempts a grant:
  also the second one after a first grant that succeeded, while the member cache, which
  the program does not update, still shows the member without the role.
\<close>

theorem role_commands:
  assumes "my_ping_role c = Some r"
  shows "(role_id r \<in> set (roles m) \<longrightarrow>
            platform_calls (snd (add_ping_role c fail m ch))
              = [Send ch (member_mention m @ '' You already have role '' @ role_name r @ ''!'')
                   None])
       \<and> (role_id r \<notin> set (roles m) \<longrightarrow>
            filter is_AddRoles (platform_calls (snd (add_ping_role c fail m ch)))
              = [AddRoles m r ''User requested.'']
            \<and> (fail (AddRoles m r ''User requested.'') = None \<longrightarrow>
                 Platform (AddRoles m r ''User requested.'') None
                   \<in> set (snd (add_ping_role c fail m ch))
                 \<and> count_list (platform_calls (snd (add_ping_role c fail m ch)))
                     (Send ch (member_mention m @ '' Added role '' @ role_name r @ ''.'') None)
                     = 1)
            \<and> (fail (AddRoles m r ''User requested.'') \<noteq> None \<longrightarrow>
                 count_list (platform_calls (snd (add_ping_role c fail m ch)))
                     (Send ch (member_mention m @ '' Added role '' @ role_name r @ ''.'') None)
                     = 0))
       \<and> (role_id r \<notin> set (roles m) \<longrightarrow>
            platform_calls (snd (remove_ping_role c fail m ch))
              = [Send ch (member_mention m @ '' You don'' @ [CHR 0x27] @ ''t have role ''
                            @ role_name r @ ''!'') None])
       \<and> (role_id r \<in> set (roles m) \<longrightarrow>
            filter is_RemoveRoles (platform_calls (snd (remove_ping_role c fail m ch)))
              = [RemoveRoles m r ''User requested.'']
            \<and> (fail (RemoveRoles m r ''User requested.'') = None \<longrightarrow>
                 Platform (RemoveRoles m r ''User requested.'') None
                   \<in> set (snd (remove_ping_role c fail m ch))
                 \<and> count_list (platform_calls (snd (remove_ping_role c fail m ch)))
                     (Send ch (member_mention m @ '' Removed role '' @ role_name r @ ''.'')
                        None) = 1)
            \<and> (fail (RemoveRoles m r ''User requested.'') \<noteq> None \<longrightarrow>
                 count_list (platform_calls (snd (remove_ping_role c fail m ch)))
                     (Send ch (member_mention m @ '' Removed role '' @ role_name r @ ''.'')
                        None) = 0))
       \<and> (routed c p1 msg g m1 \<and> routed c p2 msg g m2 \<and> content msg = ''!add'' \<longrightarrow>
            filter is_RemoveRoles
              (platform_calls (fst (twice c fail1 fail2 p1 p2 msg)
                 @ snd (twice c fail1 fail2 p1 p2 msg))) = []
            \<and> (role_id r \<in> set (roles m2) \<longrightarrow>
                 platform_calls (snd (twice c fail1 fail2 p1 p2 msg))
                   = [Send (msg_channel msg)
                        (member_mention m2 @ '' You already have role '' @ role_name r @ ''!'')
                        None])
            \<and> (role_id r \<notin> set (roles m2) \<longrightarrow>
                 filter is_AddRoles (platform_calls (snd (twice c fail1 fail2 p1 p2 msg)))
                   = [AddRoles m2 r ''User requested.'']))"
proof (intro conjI impI)
  assume held: "role_id r \<in> set (roles m)"
  show "platform_calls (snd (add_ping_role c fail m ch))
              = [Send ch (member_mention m @ '' You already have role '' @ role_name r @ ''!'')
                   None]"
    by (rule add_held [OF assms held])
next
  assume nh: "role_id r \<notin> set (roles m)"
  note a = add_not_held [OF assms nh, of fail ch]
  from a show "filter is_AddRoles (platform_calls (snd (add_ping_role c fail m ch)))
              = [AddRoles m r ''User requested.'']" by simp
  {
    assume ok: "fail (AddRoles m r ''User requested.'') = None"
    from a ok show "Platform (AddRoles m r ''User requested.'') None
                   \<in> set (snd (add_ping_role c fail m ch))" by simp
    from a ok show "count_list (platform_calls (snd (add_ping_role c fail m ch)))
                     (Send ch (member_mention m @ '' Added role '' @ role_name r @ ''.'') None)
                     = 1" by simp
  }
  {
    assume ko: "fail (AddRoles m r ''User requested.'') \<noteq> None"
    from a ko show "count_list (platform_calls (snd (add_ping_role c fail m ch)))
                     (Send ch (member_mention m @ '' Added role '' @ role_name r @ ''.'') None)
                     = 0" by simp
  }
next
  assume nh: "role_id r \<notin> set (roles m)"
  show "platform_calls (snd (remove_ping_role c fail m ch))
              = [Send ch (member_mention m @ '' You don'' @ [CHR 0x27] @ ''t have role ''
                            @ role_name r @ ''!'') None]"
    by (rule remove_not_held [OF assms nh])
next
  assume held: "role_id r \<in> set (roles m)"
  note a = remove_held [OF assms held, of fail ch]
  from a show "filter is_RemoveRoles (platform_calls (snd (remove_ping_role c fail m ch)))
              = [RemoveRoles m r ''User requested.'']" by simp
  {
    assume ok: "fail (RemoveRoles m r ''User requested.'') = None"
    from a ok show "Platform (RemoveRoles m r ''User requested.'') None
                   \<in> set (snd (remove_ping_role c fail m ch))" by simp
    from a ok show "count_list (platform_calls (snd (remove_ping_role c fail m ch)))
                     (Send ch (member_mention m @ '' Removed role '' @ role_name r @ ''.'')
                        None) = 1" by simp
  }
  {
    assume ko: "fail (RemoveRoles m r ''User requested.'') \<noteq> None"
    from a ko show "count_list (platform_calls (snd (remove_ping_role c fail m ch)))
                     (Send ch (member_mention m @ '' Removed role '' @ role_name r @ ''.'')
                        None) = 0" by simp
  }
next
  assume "routed c p1 msg g m1 \<and> routed c p2 msg g m2 \<and> content msg = ''!add''"
  then have r1: "routed c p1 msg g m1" and r2: "routed c p2 msg g m2"
    and cm: "content msg = ''!add''" by simp_all
  note tw = twice_add [OF r1 r2 cm, of fail1 fail2]
  show "filter is_RemoveRoles
              (platform_calls (fst (twice c fail1 fail2 p1 p2 msg)
                 @ snd (twice c fail1 fail2 p1 p2 msg))) = []"
    using add_no_revoke [OF assms, of fail1 m1 "msg_channel msg"]
      add_no_revoke [OF assms, of fail2 m2 "msg_channel msg"]
    by (simp add: tw platform_calls_append)
  {
    assume held: "role_id r \<in> set (roles m2)"
    show "platform_calls (snd (twice c fail1 fail2 p1 p2 msg))
                   = [Send (msg_channel msg)
                        (member_mention m2 @ '' You already have role '' @ role_name r @ ''!'')
                        None]"
      using add_held [OF assms held, of fail2 "msg_channel msg"] by (simp add: tw)
  }
  {
    assume nh: "role_id r \<notin> set (roles m2)"
    show "filter is_AddRoles (platform_calls (snd (twice c fail1 fail2 p1 p2 msg)))
                   = [AddRoles m2 r ''User requested.'']"
      using add_not_held [OF assms nh, of fail2 "msg_channel msg"] by (simp add: tw)
  }
qed

theorem role_commands_witness:
  "routed ready_client example_platform add_message 7 example_member
   \<and> routed ready_client updated_platform add_message 7 held_member
   \<and> filter is_AddRoles (platform_calls (fst (twice ready_client platform_ok platform_ok
        example_platform updated_platform add_message)))
       = [AddRoles example_member example_role ''User requested.'']
   \<and> platform_calls (snd (twice ready_client platform_ok platform_ok example_platform
        updated_platform add_message))
       = [Send (TextChannel 1 7) ''<@5> You already have role LFP!'' None]
   \<and> filter is_AddRoles (platform_calls (snd (twice ready_client platform_ok platform_ok
        example_platform example_platform add_message)))
       = [AddRoles example_member example_role ''User requested.'']
   \<and> platform_calls (snd (remove_ping_role ready_client platform_ok example_member
        (DMChannel 4)))
       = [Send (DMChannel 4) (''<@5> You don'' @ [CHR 0x27] @ ''t have role LFP!'') None]"
proof -
  have pr: "my_ping_role ready_client = Some example_role"
    by (simp add: ready_client_def)
  have rt: "routed ready_client example_platform add_message 7 example_member"
    by (simp add: routed_def ready_client_def example_platform_def example_config_def
        add_message_def)
  have ru: "routed ready_client updated_platform add_message 7 held_member"
    by (simp add: routed_def ready_client_def updated_platform_def example_platform_def
        example_config_def add_message_def)
  have cm: "content add_message = ''!add''" by (simp add: add_message_def)
  have nr: "role_id example_role \<notin> set (roles example_member)"
    by (simp add: example_member_def)
  have hr: "role_id example_role \<in> set (roles held_member)"
    by (simp add: held_member_def example_role_def)
  have first: "fst (twice ready_client platform_ok platform_ok example_platform
        updated_platform add_message)
      = snd (add_ping_role ready_client platform_ok example_member (TextChannel 1 7))"
    using twice_add [OF rt ru cm, of platform_ok platform_ok] by (simp add: add_message_def)
  show ?thesis
    using role_commands [OF pr, of example_member platform_ok "DMChannel 4" example_platform
        add_message 7 example_member updated_platform held_member platform_ok platform_ok]
      role_commands [OF pr, of example_member platform_ok "TextChannel 1 7" example_platform
        add_message 7 example_member example_platform example_member platform_ok platform_ok]
      rt ru cm nr hr first
    by (simp add: platform_ok_def add_message_def held_member_def example_member_def
        example_role_def)
qed

end
